theory Spec2Isabelle
  imports Main
begin

section \<open>The key-value store\<close>

text \<open>
  The four key families of a tenant hold integers (\<open>rate_limit:T\<close>, \<open>quota:T\<close>,
  \<open>counter:T:S\<close>, \<open>usage:T\<close>). An entry of the store is the integer and the remaining
  time to live in seconds, \<open>None\<close> for a key that never expires.

  The scripts compute on Lua numbers, which are doubles. Each script is given in two
  readings. The integer reading (\<open>checkRateLimitScript\<close>, \<open>reduceUsageScript\<close>)
  computes on \<open>int\<close>; the Go side is modelled on it. The reading on Lua numbers
  (\<open>checkRateLimitScriptLua\<close>, \<open>reduceUsageScriptLua\<close>) rounds as doubles do. The two
  agree on stored values below \<open>2 ^ 53\<close> in magnitude (\<open>checkRateLimitScriptLua_exact\<close>,
  \<open>reduceUsageScriptLua_exact\<close>) and differ above. On values of that size no command of
  the two scripts fails, so a script that starts on a reachable store runs to its
  \<open>return\<close>, and a store that cannot be reached is the only failure of a script call.
\<close>

record entry =
  val :: int
  ttl :: "nat option"

type_synonym store = "string \<Rightarrow> entry option"

text \<open>\<open>tonumber(redis.call('GET', k))\<close>: the number, or nil (\<open>None\<close>) for an absent key.\<close>

definition redis_get :: "store \<Rightarrow> string \<Rightarrow> int option" where
  "redis_get st k = map_option val (st k)"

definition redis_exists :: "store \<Rightarrow> string \<Rightarrow> int" where
  "redis_exists st k = (if st k = None then 0 else 1)"

text \<open>\<open>INCRBY\<close> creates an absent key at 0 with no expiry, keeps the expiry of a
  present one, and replies with the new value.\<close>

definition redis_incrby :: "store \<Rightarrow> string \<Rightarrow> int \<Rightarrow> store \<times> int" where
  "redis_incrby st k n =
     (case st k of
        None \<Rightarrow> (st(k \<mapsto> \<lparr>val = n, ttl = None\<rparr>), n)
      | Some e \<Rightarrow> (st(k \<mapsto> e\<lparr>val := val e + n\<rparr>), val e + n))"

definition redis_expire :: "store \<Rightarrow> string \<Rightarrow> nat \<Rightarrow> store" where
  "redis_expire st k s =
     (case st k of None \<Rightarrow> st | Some e \<Rightarrow> st(k \<mapsto> e\<lparr>ttl := Some s\<rparr>))"

text \<open>\<open>SET\<close> without options overwrites the value and discards any expiry.\<close>

definition redis_set :: "store \<Rightarrow> string \<Rightarrow> int \<Rightarrow> store" where
  "redis_set st k v = st(k \<mapsto> \<lparr>val = v, ttl = None\<rparr>)"

text \<open>What the client sees of the store: it is reachable with some content, or a
  command fails (\<open>err != nil\<close> on the Go side).\<close>

datatype redisClient = Unreachable | Connected store

text \<open>An element of a script's reply: Lua numbers arrive as \<open>int64\<close>, Lua strings as
  \<open>string\<close>.\<close>

datatype reply = RInt int | RBulk string

section \<open>rate\_limiter/lua\_scripts.go\<close>

record RedisKeys =
  RateLimitKey :: string
  CounterKey :: string
  UsageTotalKey :: string
  QuotaLimitKey :: string

text \<open>\<open>checkRateLimitScript\<close> in the integer reading, with \<open>KEYS[1..4]\<close> the four fields
  of \<open>RedisKeys\<close> in the order the caller passes them, \<open>ARGV[1]\<close> the current time and
  \<open>ARGV[2]\<close> the cost.\<close>

definition checkRateLimitScript :: "RedisKeys \<Rightarrow> int \<Rightarrow> int \<Rightarrow> store \<Rightarrow> reply list \<times> store" where
  "checkRateLimitScript keys current_time cost st =
     (case redis_get st (RateLimitKey keys) of
        None \<Rightarrow> ([RInt 0, RBulk ''rate_exceeded'', RInt 0, RInt 0, RInt 0], st)
      | Some rate_limit \<Rightarrow>
          (case redis_get st (QuotaLimitKey keys) of
             None \<Rightarrow> ([RInt 0, RBulk ''quota_exceeded'', RInt 0, RInt 0, RInt 0], st)
           | Some quota_limit \<Rightarrow>
               (let quota_used = (case redis_get st (UsageTotalKey keys) of None \<Rightarrow> 0 | Some u \<Rightarrow> u);
                    current_rate = (case redis_get st (CounterKey keys) of None \<Rightarrow> 0 | Some c \<Rightarrow> c)
                in if current_rate + cost > rate_limit
                   then ([RInt 0, RBulk ''rate_exceeded'', RInt quota_used, RInt quota_limit,
                          RInt current_rate], st)
                   else
                     (let st1 = fst (redis_incrby st (CounterKey keys) cost);
                          st2 = redis_expire st1 (CounterKey keys) 1;
                          current_rate2 = current_rate + cost
                      in if quota_used + cost > quota_limit
                         then ([RInt 0, RBulk ''quota_exceeded'', RInt quota_used, RInt quota_limit,
                                RInt current_rate2], st2)
                         else
                           (let r = redis_incrby st2 (UsageTotalKey keys) cost
                            in ([RInt 1, RBulk ''success'', RInt (snd r), RInt quota_limit,
                                 RInt current_rate2], fst r))))))"

section \<open>The authorizer (ext\_authz)\<close>

subsection \<open>Strings and numbers of the Go runtime\<close>

definition digit_char :: "nat \<Rightarrow> char" where
  "digit_char d = ''0123456789'' ! d"

fun dec_nat :: "nat \<Rightarrow> string" where
  "dec_nat n = (if n < 10 then [digit_char n] else dec_nat (n div 10) @ [digit_char (n mod 10)])"

declare dec_nat.simps [simp del]

text \<open>\<open>strconv.FormatInt(i, 10)\<close> and the verb \<open>%d\<close>.\<close>

definition FormatInt :: "int \<Rightarrow> string" where
  "FormatInt i = (if i < 0 then CHR ''-'' # dec_nat (nat (- i)) else dec_nat (nat i))"

text \<open>Subtraction on \<open>int64\<close> wraps around.\<close>

definition wrap64 :: "int \<Rightarrow> int" where
  "wrap64 x = (x + 2 ^ 63) mod 2 ^ 64 - 2 ^ 63"

definition int64_sub :: "int \<Rightarrow> int \<Rightarrow> int" where
  "int64_sub a b = wrap64 (a - b)"

text \<open>\<open>strings.Split(s, ":")[0]\<close>: the part of \<open>s\<close> before its first colon, all of \<open>s\<close>
  when it has none.\<close>

definition split_colon_first :: "string \<Rightarrow> string" where
  "split_colon_first s = takeWhile (\<lambda>c. c \<noteq> CHR '':'') s"

subsection \<open>Token extraction\<close>

definition is_digit :: "char \<Rightarrow> bool" where
  "is_digit c = (c \<in> set ''0123456789'')"

definition is_token_char :: "char \<Rightarrow> bool" where
  "is_token_char c =
     (c \<in> set ''ABCDEFGHIJKLMNOPQRSTUVWXYZabcdefghijklmnopqrstuvwxyz0123456789_-'')"

text \<open>
  \<open>botTokenRegex.FindStringSubmatch\<close> for the pattern \<open>^/bot([0-9]+:[A-Za-z0-9_-]+)/\<close>:
  \<open>None\<close> is the nil slice of a failed match, otherwise the whole match and the group.
  Neither repetition can stop early: the character that has to follow the digits (a
  colon) is no digit, and the one that has to follow the secret (a slash) is no token
  character, so the greedy match is the only one.
\<close>

definition botTokenRegex :: "string \<Rightarrow> string list option" where
  "botTokenRegex p =
     (if take 4 p = ''/bot'' then
        (let r = drop 4 p; ds = takeWhile is_digit r in
         (case dropWhile is_digit r of
            [] \<Rightarrow> None
          | c # r2 \<Rightarrow>
              if ds \<noteq> [] \<and> c = CHR '':'' then
                (let sec = takeWhile is_token_char r2 in
                 (case dropWhile is_token_char r2 of
                    [] \<Rightarrow> None
                  | d # r3 \<Rightarrow>
                      if sec \<noteq> [] \<and> d = CHR ''/''
                      then Some [''/bot'' @ ds @ '':'' @ sec @ ''/'', ds @ '':'' @ sec]
                      else None))
              else None))
      else None)"

definition extractBotToken :: "string \<Rightarrow> string" where
  "extractBotToken p =
     (case botTokenRegex p of
        None \<Rightarrow> ''''
      | Some matches \<Rightarrow> if length matches \<ge> 2 then matches ! 1 else '''')"

subsection \<open>Keys and the script call\<close>

definition generateKeys :: "string \<Rightarrow> int \<Rightarrow> RedisKeys" where
  "generateKeys botToken currentTime =
     (let botID = split_colon_first botToken in
      \<lparr>RateLimitKey = ''rate_limit:'' @ botID,
       CounterKey = ''counter:'' @ botID @ '':'' @ FormatInt currentTime,
       UsageTotalKey = ''usage:'' @ botID,
       QuotaLimitKey = ''quota:'' @ botID\<rparr>)"

record CheckResult =
  Allowed :: bool
  Reason :: string
  QuotaUsed :: int
  QuotaLimit :: int
  RateUsed :: int
  RateLimit :: int
  RetryAfter :: int
  BotToken :: string

datatype error = LuaScriptExecutionFailed | UnexpectedLuaResultFormat

text \<open>The type assertions \<open>x.(int64)\<close> and \<open>x.(string)\<close> with the second result
  discarded: the zero value on a mismatch.\<close>

fun as_int64 :: "reply \<Rightarrow> int" where
  "as_int64 (RInt n) = n"
| "as_int64 (RBulk s) = 0"

fun as_string :: "reply \<Rightarrow> string" where
  "as_string (RBulk s) = s"
| "as_string (RInt n) = ''''"

definition parseLuaResult :: "reply list \<Rightarrow> string \<Rightarrow> error + CheckResult" where
  "parseLuaResult resultSlice botToken =
     (if length resultSlice < 5 then Inl UnexpectedLuaResultFormat
      else
        (let allowed = as_int64 (resultSlice ! 0);
             reason = as_string (resultSlice ! 1);
             quotaUsed = as_int64 (resultSlice ! 2);
             quotaLimit = as_int64 (resultSlice ! 3);
             rateUsed = as_int64 (resultSlice ! 4);
             rateLimit = 50;
             retryAfter = (if reason = ''quota_exceeded'' then 3600 else 1)
         in Inr \<lparr>Allowed = (allowed = 1), Reason = reason, QuotaUsed = quotaUsed,
                 QuotaLimit = quotaLimit, RateUsed = rateUsed, RateLimit = rateLimit,
                 RetryAfter = retryAfter, BotToken = botToken\<rparr>))"

text \<open>\<open>checkRateLimit\<close>: \<open>currentTime\<close> is \<open>time.Now().Unix()\<close>; the request cost is 1.
  The result comes with the store as the call leaves it.\<close>

definition checkRateLimit :: "int \<Rightarrow> redisClient \<Rightarrow> string \<Rightarrow> (error + CheckResult) \<times> redisClient" where
  "checkRateLimit currentTime rc botToken =
     (let requestCost = 1;
          keys = generateKeys botToken currentTime
      in case rc of
           Unreachable \<Rightarrow> (Inl LuaScriptExecutionFailed, Unreachable)
         | Connected st \<Rightarrow>
             (let r = checkRateLimitScript keys currentTime requestCost st
              in (parseLuaResult (fst r) botToken, Connected (snd r))))"

subsection \<open>Responses\<close>

record HeaderValue =
  Key :: string
  Value :: string

datatype rpc_code = OK | PermissionDenied

datatype HttpResponse =
  OkResponse "HeaderValue list"
| DeniedResponse int "HeaderValue list" string

record CheckResponse =
  StatusCode :: rpc_code
  StatusMessage :: string
  Response :: HttpResponse

definition createAllowedResponse :: "CheckResult \<Rightarrow> CheckResponse" where
  "createAllowedResponse result =
     (let headers =
        [\<lparr>Key = ''x-bot-token'', Value = BotToken result\<rparr>,
         \<lparr>Key = ''x-quota-remaining'',
          Value = FormatInt (int64_sub (QuotaLimit result) (QuotaUsed result))\<rparr>,
         \<lparr>Key = ''x-quota-limit'', Value = FormatInt (QuotaLimit result)\<rparr>,
         \<lparr>Key = ''x-rate-limit'', Value = FormatInt (RateLimit result)\<rparr>];
          headers = headers @ [\<lparr>Key = ''content-type'', Value = ''application/json''\<rparr>]
      in \<lparr>StatusCode = OK, StatusMessage = '''', Response = OkResponse headers\<rparr>)"

definition createDeniedResponse :: "int \<Rightarrow> string \<Rightarrow> string \<Rightarrow> CheckResponse" where
  "createDeniedResponse httpStatus reason message =
     (let headers = [\<lparr>Key = ''x-rate-limit-reason'', Value = reason\<rparr>];
          headers =
            (if httpStatus = 429
             then headers @
                  [\<lparr>Key = ''retry-after'',
                    Value = (if reason = ''quota_exceeded'' then ''3600'' else ''1'')\<rparr>]
             else headers);
          headers = headers @ [\<lparr>Key = ''content-type'', Value = ''application/json''\<rparr>]
      in \<lparr>StatusCode = PermissionDenied, StatusMessage = message,
          Response =
            DeniedResponse httpStatus headers
              (''{\"error\": \"'' @ reason @ ''\", \"message\": \"'' @ message @ ''\"}'')\<rparr>)"

definition getErrorMessage :: "CheckResult \<Rightarrow> string" where
  "getErrorMessage result =
     (if Reason result = ''plan_not_found'' then ''No active subscription found for this bot''
      else if Reason result = ''subscription_expired'' then ''Bot subscription has expired''
      else if Reason result = ''quota_exceeded'' then
        ''Bot quota exceeded ('' @ FormatInt (QuotaUsed result) @ ''/''
          @ FormatInt (QuotaLimit result) @ '' requests used)''
      else if Reason result = ''rate_exceeded'' then
        ''Rate limit exceeded - too many requests per second''
      else ''Rate limit exceeded'')"

subsection \<open>Check\<close>

record HttpRequest =
  Method :: string
  Path :: string

text \<open>\<open>Check\<close>: the argument is \<open>req.GetAttributes().GetRequest().GetHttp()\<close>, \<open>None\<close>
  when it is nil.\<close>

definition Check :: "int \<Rightarrow> redisClient \<Rightarrow> HttpRequest option \<Rightarrow> CheckResponse \<times> redisClient" where
  "Check currentTime rc httpAttrs =
     (case httpAttrs of
        None \<Rightarrow> (createDeniedResponse 401 ''missing_http_attributes'' ''No HTTP attributes found'', rc)
      | Some h \<Rightarrow>
          (let botToken = extractBotToken (Path h) in
           if botToken = '''' then
             (createDeniedResponse 401 ''invalid_bot_token'' ''Invalid or missing bot token in URL'', rc)
           else
             (case checkRateLimit currentTime rc botToken of
                (Inl err, rc2) \<Rightarrow>
                  (createDeniedResponse 500 ''rate_limit_error'' ''Internal rate limiting error'', rc2)
              | (Inr result, rc2) \<Rightarrow>
                  if Allowed result then (createAllowedResponse result, rc2)
                  else (createDeniedResponse 429 (Reason result) (getErrorMessage result), rc2))))"

section \<open>The usage adjuster (ext\_proc): usage\_service/service.go\<close>

subsection \<open>The refund script\<close>

text \<open>\<open>reduceUsageScript\<close> in the integer reading, with \<open>KEYS[1]\<close> the usage key and
  \<open>ARGV[1]\<close> the reduction.\<close>

definition reduceUsageScript :: "string \<Rightarrow> int \<Rightarrow> store \<Rightarrow> reply list \<times> store" where
  "reduceUsageScript key reduction st =
     (if redis_exists st key = 1 then
        (let current_usage = (case redis_get st key of None \<Rightarrow> 0 | Some u \<Rightarrow> u);
             new_usage = max 0 (current_usage - reduction);
             st2 = redis_set st key new_usage
         in ([RInt 1, RInt new_usage], st2))
      else ([RInt 0, RInt 0], st))"

subsection \<open>The service and its correlation tables\<close>

record UsageTrackingService =
  paidStatusCodes :: "int \<Rightarrow> bool option"
  requestTokens :: "string \<Rightarrow> string option"
  requestQuotas :: "string \<Rightarrow> (string \<Rightarrow> string option) option"

definition NewUsageTrackingService :: UsageTrackingService where
  "NewUsageTrackingService =
     \<lparr>paidStatusCodes =
        map_of [(200, True), (201, True), (202, True), (204, True), (206, True), (304, True)],
      requestTokens = Map.empty,
      requestQuotas = Map.empty\<rparr>"

text \<open>Reading a Go map at a key it does not have gives the zero value.\<close>

definition map_bool :: "('k \<Rightarrow> bool option) \<Rightarrow> 'k \<Rightarrow> bool" where
  "map_bool m k = (case m k of None \<Rightarrow> False | Some b \<Rightarrow> b)"

definition map_string :: "('k \<Rightarrow> string option) \<Rightarrow> 'k \<Rightarrow> string" where
  "map_string m k = (case m k of None \<Rightarrow> '''' | Some v \<Rightarrow> v)"

text \<open>
  \<open>strconv.Atoi\<close>: an optional sign and at least one decimal digit, nothing else, and a
  value that fits the 64-bit \<open>int\<close>; \<open>None\<close> is a non-nil error.
\<close>

definition digit_val :: "char \<Rightarrow> nat" where
  "digit_val c = of_char c - 48"

definition dec_val :: "string \<Rightarrow> nat" where
  "dec_val ds = foldl (\<lambda>n c. 10 * n + digit_val c) 0 ds"

definition Atoi :: "string \<Rightarrow> int option" where
  "Atoi s =
     (let neg = (s \<noteq> [] \<and> hd s = CHR ''-'');
          ds = (if s \<noteq> [] \<and> (hd s = CHR ''-'' \<or> hd s = CHR ''+'') then tl s else s)
      in if ds = [] \<or> \<not> list_all is_digit ds then None
         else
           (let n = (if neg then - int (dec_val ds) else int (dec_val ds))
            in if n < - (2 ^ 63) \<or> 2 ^ 63 - 1 < n then None else Some n))"

datatype ProcessingResponse =
  RequestHeadersResponse
| ResponseHeadersResponse "HeaderValue list"
| EmptyResponse

subsection \<open>Request headers\<close>

text \<open>One round of the loop over the request headers; the state is the five locals
  \<open>botToken\<close>, \<open>requestID\<close>, \<open>quotaRemaining\<close>, \<open>quotaLimit\<close>, \<open>rateLimit\<close>.\<close>

definition requestHeaderStep ::
  "string \<times> string \<times> string \<times> string \<times> string \<Rightarrow> HeaderValue
     \<Rightarrow> string \<times> string \<times> string \<times> string \<times> string" where
  "requestHeaderStep vars header =
     (case vars of (botToken, requestID, quotaRemaining, quotaLimit, rateLimit) \<Rightarrow>
        if Key header = ''x-bot-token'' then
          (Value header, requestID, quotaRemaining, quotaLimit, rateLimit)
        else if Key header = ''x-request-id'' then
          (botToken, Value header, quotaRemaining, quotaLimit, rateLimit)
        else if Key header = ''x-quota-remaining'' then
          (botToken, requestID, Value header, quotaLimit, rateLimit)
        else if Key header = ''x-quota-limit'' then
          (botToken, requestID, quotaRemaining, Value header, rateLimit)
        else if Key header = ''x-rate-limit'' then
          (botToken, requestID, quotaRemaining, quotaLimit, Value header)
        else vars)"

definition processRequestHeaders ::
  "UsageTrackingService \<Rightarrow> HeaderValue list \<Rightarrow> ProcessingResponse \<times> UsageTrackingService" where
  "processRequestHeaders s headers =
     (case foldl requestHeaderStep ('''', '''', '''', '''', '''') headers of
        (botToken, requestID, quotaRemaining, quotaLimit, rateLimit) \<Rightarrow>
          if botToken \<noteq> '''' \<and> requestID \<noteq> '''' then
            (RequestHeadersResponse,
             s\<lparr>requestTokens := (requestTokens s)(requestID \<mapsto> botToken),
               requestQuotas := (requestQuotas s)(requestID \<mapsto>
                 [''x-quota-remaining'' \<mapsto> quotaRemaining,
                  ''x-quota-limit'' \<mapsto> quotaLimit,
                  ''x-rate-limit'' \<mapsto> rateLimit])\<rparr>)
          else (RequestHeadersResponse, s))"

subsection \<open>Response headers\<close>

definition generateUsageKeys :: "string \<Rightarrow> string" where
  "generateUsageKeys botID = ''usage:'' @ botID"

text \<open>\<open>processResponse\<close>: a paid status returns at once; otherwise the refund script
  runs once with cost 1. A failed call is logged and nothing else happens; the reply of
  a successful one is only logged.\<close>

definition processResponse :: "UsageTrackingService \<Rightarrow> redisClient \<Rightarrow> string \<Rightarrow> int \<Rightarrow> redisClient" where
  "processResponse s rc botToken statusCode =
     (let requestCost = 1;
          botID = split_colon_first botToken
      in if map_bool (paidStatusCodes s) statusCode then rc
         else
           (let keys = generateUsageKeys botID
            in case rc of
                 Unreachable \<Rightarrow> Unreachable
               | Connected st \<Rightarrow> Connected (snd (reduceUsageScript keys requestCost st))))"

text \<open>One round of the loop over the response headers; the state is \<open>statusCode\<close> and
  \<open>requestID\<close>.\<close>

definition responseHeaderStep :: "int \<times> string \<Rightarrow> HeaderValue \<Rightarrow> int \<times> string" where
  "responseHeaderStep vars header =
     (case vars of (statusCode, requestID) \<Rightarrow>
        if Key header = '':status'' then
          (case Atoi (Value header) of
             Some code \<Rightarrow> (code, requestID)
           | None \<Rightarrow> (statusCode, requestID))
        else if Key header = ''x-request-id'' then (statusCode, Value header)
        else vars)"

definition scanResponseHeaders :: "HeaderValue list \<Rightarrow> int \<times> string" where
  "scanResponseHeaders headers = foldl responseHeaderStep (200, '''') headers"

definition processResponseHeaders ::
  "UsageTrackingService \<Rightarrow> redisClient \<Rightarrow> HeaderValue list
     \<Rightarrow> ProcessingResponse \<times> UsageTrackingService \<times> redisClient" where
  "processResponseHeaders s rc headers =
     (case scanResponseHeaders headers of
        (statusCode, requestID) \<Rightarrow>
          (let found = (if requestID \<noteq> '''' then requestTokens s requestID else None);
               botToken = (case found of None \<Rightarrow> '''' | Some token \<Rightarrow> token);
               s1 = (case found of
                       None \<Rightarrow> s
                     | Some token \<Rightarrow> s\<lparr>requestTokens := (requestTokens s)(requestID := None)\<rparr>);
               foundQ = (if requestID \<noteq> '''' then requestQuotas s1 requestID else None);
               quotaHeaders = (case foundQ of None \<Rightarrow> Map.empty | Some quotas \<Rightarrow> quotas);
               s2 = (case foundQ of
                       None \<Rightarrow> s1
                     | Some quotas \<Rightarrow> s1\<lparr>requestQuotas := (requestQuotas s1)(requestID := None)\<rparr>);
               rc2 = (if botToken \<noteq> '''' then processResponse s2 rc botToken statusCode else rc)
           in (ResponseHeadersResponse
                 [\<lparr>Key = ''x-quota-remaining'', Value = map_string quotaHeaders ''x-quota-remaining''\<rparr>,
                  \<lparr>Key = ''x-quota-limit'', Value = map_string quotaHeaders ''x-quota-limit''\<rparr>,
                  \<lparr>Key = ''x-rate-limit'', Value = map_string quotaHeaders ''x-rate-limit''\<rparr>],
               s2, rc2)))"

section \<open>The scripts on Lua numbers\<close>

text \<open>
  A Lua number is a double. \<open>tonumber\<close> of a stored integer, the sum or difference of
  two numbers, and the number made from an integer reply are each the double nearest to
  the exact result, ties going to the even mantissa. Every integer up to \<open>2 ^ 53\<close> in
  magnitude is a double; between \<open>2 ^ 53\<close> and \<open>2 ^ 54\<close> the doubles are the even
  integers, so an odd integer there goes to its neighbour that is a multiple of 4.
  \<open>round_double\<close> is that rounding, written on the integers that the doubles are;
  \<open>None\<close> marks an integer beyond \<open>2 ^ 54\<close>, which this reading of the scripts does not
  cover. Up to \<open>2 ^ 54\<close> a number passed to \<open>redis.call\<close> is written with all its
  digits, a number in the reply arrives as that integer, and \<open>INCRBY\<close> stays within 64
  bits.
\<close>

definition round_double :: "int \<Rightarrow> int option" where
  "round_double x =
     (if \<bar>x\<bar> \<le> 2 ^ 53 then Some x
      else if \<bar>x\<bar> \<le> 2 ^ 54 then
        Some (if even x then x else if (x + 1) mod 4 = 0 then x + 1 else x - 1)
      else None)"

text \<open>\<open>tonumber(redis.call('GET', k)) or 0\<close>.\<close>

definition lua_get_or_0 :: "store \<Rightarrow> string \<Rightarrow> int option" where
  "lua_get_or_0 st k = (case st k of None \<Rightarrow> Some 0 | Some e \<Rightarrow> round_double (val e))"


text \<open>\<open>reduceUsageScript\<close> read on Lua numbers.\<close>

definition reduceUsageScriptLua :: "string \<Rightarrow> int \<Rightarrow> store \<Rightarrow> (reply list \<times> store) option" where
  "reduceUsageScriptLua key reduction st =
     (if redis_exists st key = 1 then
        Option.bind (lua_get_or_0 st key) (\<lambda>current_usage.
        Option.bind (round_double (current_usage - reduction)) (\<lambda>difference.
          (let new_usage = max 0 difference;
               st2 = redis_set st key new_usage
           in Some ([RInt 1, RInt new_usage], st2))))
      else Some ([RInt 0, RInt 0], st))"


section \<open>Properties of the authorizer\<close>

subsection \<open>Keys\<close>

lemma generateKeys_fields:
  "RateLimitKey (generateKeys tok t) = ''rate_limit:'' @ split_colon_first tok"
  "CounterKey (generateKeys tok t) = ''counter:'' @ split_colon_first tok @ '':'' @ FormatInt t"
  "UsageTotalKey (generateKeys tok t) = ''usage:'' @ split_colon_first tok"
  "QuotaLimitKey (generateKeys tok t) = ''quota:'' @ split_colon_first tok"
  by (simp_all add: generateKeys_def Let_def)

lemma generateKeys_distinct:
  "CounterKey (generateKeys tok t) \<noteq> UsageTotalKey (generateKeys tok t)"
  "CounterKey (generateKeys tok t) \<noteq> RateLimitKey (generateKeys tok t)"
  "CounterKey (generateKeys tok t) \<noteq> QuotaLimitKey (generateKeys tok t)"
  "UsageTotalKey (generateKeys tok t) \<noteq> RateLimitKey (generateKeys tok t)"
  "UsageTotalKey (generateKeys tok t) \<noteq> QuotaLimitKey (generateKeys tok t)"
  "RateLimitKey (generateKeys tok t) \<noteq> QuotaLimitKey (generateKeys tok t)"
  by (simp_all add: generateKeys_def Let_def)

subsection \<open>The outcomes of the script\<close>

lemma script_reply_length: "length (fst (checkRateLimitScript keys t cost st)) = 5"
  by (simp add: checkRateLimitScript_def Let_def split: option.splits)


lemma script_not_allowed:
  assumes "as_int64 (fst (checkRateLimitScript keys t 1 st) ! 0) \<noteq> 1"
  shows "(\<exists>u q c. checkRateLimitScript keys t 1 st =
            ([RInt 0, RBulk ''rate_exceeded'', RInt u, RInt q, RInt c], st)) \<or>
         (\<exists>u q c st2. checkRateLimitScript keys t 1 st =
            ([RInt 0, RBulk ''quota_exceeded'', RInt u, RInt q, RInt c], st2))"
  using assms
  by (auto simp: checkRateLimitScript_def Let_def split: option.splits if_splits)

lemma script_quota_exceeded:
  assumes d: "CounterKey keys \<noteq> UsageTotalKey keys"
    and a: "checkRateLimitScript keys t 1 st =
              ([RInt 0, RBulk ''quota_exceeded'', RInt u, RInt q, RInt c], st2)"
  shows "st2 (UsageTotalKey keys) = st (UsageTotalKey keys)"
    and "redis_get st (QuotaLimitKey keys) \<noteq> None \<Longrightarrow>
           (\<exists>r. redis_get st (RateLimitKey keys) = Some r \<and>
                (case st (CounterKey keys) of None \<Rightarrow> 0 | Some e \<Rightarrow> val e) + 1 \<le> r) \<and>
           redis_get st (QuotaLimitKey keys) = Some q \<and>
           u = (case st (UsageTotalKey keys) of None \<Rightarrow> 0 | Some e \<Rightarrow> val e) \<and>
           q < u + 1 \<and>
           c = (case st (CounterKey keys) of None \<Rightarrow> 0 | Some e \<Rightarrow> val e) + 1 \<and>
           st2 (CounterKey keys) = Some \<lparr>val = c, ttl = Some 1\<rparr>"
  using a d
  by (auto simp: checkRateLimitScript_def redis_get_def redis_incrby_def redis_expire_def Let_def
      split: option.splits if_splits)

subsection \<open>The outcomes of Check\<close>


lemma Check_denied_cases:
  assumes "Check now rc req = (resp, rc2)" and "Response resp = DeniedResponse code hs body"
  shows
    "(req = None \<and> rc2 = rc \<and>
      resp = createDeniedResponse 401 ''missing_http_attributes'' ''No HTTP attributes found'') \<or>
     (\<exists>h. req = Some h \<and> extractBotToken (Path h) = '''' \<and> rc2 = rc \<and>
      resp = createDeniedResponse 401 ''invalid_bot_token'' ''Invalid or missing bot token in URL'') \<or>
     (\<exists>h. req = Some h \<and> extractBotToken (Path h) \<noteq> '''' \<and> rc = Unreachable \<and> rc2 = Unreachable \<and>
      resp = createDeniedResponse 500 ''rate_limit_error'' ''Internal rate limiting error'') \<or>
     (\<exists>h st u q c. req = Some h \<and> extractBotToken (Path h) \<noteq> '''' \<and> rc = Connected st \<and>
      checkRateLimitScript (generateKeys (extractBotToken (Path h)) now) now 1 st =
        ([RInt 0, RBulk ''rate_exceeded'', RInt u, RInt q, RInt c], st) \<and>
      rc2 = Connected st \<and>
      resp = createDeniedResponse 429 ''rate_exceeded''
               ''Rate limit exceeded - too many requests per second'') \<or>
     (\<exists>h st st2 u q c. req = Some h \<and> extractBotToken (Path h) \<noteq> '''' \<and> rc = Connected st \<and>
      checkRateLimitScript (generateKeys (extractBotToken (Path h)) now) now 1 st =
        ([RInt 0, RBulk ''quota_exceeded'', RInt u, RInt q, RInt c], st2) \<and>
      rc2 = Connected st2 \<and>
      resp = createDeniedResponse 429 ''quota_exceeded''
               (''Bot quota exceeded ('' @ FormatInt u @ ''/'' @ FormatInt q @ '' requests used)''))"
proof (cases req)
  case None
  with assms show ?thesis by (simp add: Check_def)
next
  case (Some h)
  show ?thesis
  proof (cases "extractBotToken (Path h) = ''''")
    case True
    with Some assms show ?thesis by (simp add: Check_def)
  next
    case tok: False
    show ?thesis
    proof (cases rc)
      case Unreachable
      with Some tok assms show ?thesis by (simp add: Check_def checkRateLimit_def)
    next
      case (Connected st)
      let ?r = "checkRateLimitScript (generateKeys (extractBotToken (Path h)) now) now 1 st"
      from Some tok Connected assms have na: "as_int64 (fst ?r ! 0) \<noteq> 1"
        by (auto simp: Check_def checkRateLimit_def parseLuaResult_def script_reply_length Let_def
            createAllowedResponse_def split: if_splits)
      from script_not_allowed [OF na] show ?thesis
      proof
        assume "\<exists>u q c. ?r = ([RInt 0, RBulk ''rate_exceeded'', RInt u, RInt q, RInt c], st)"
        then obtain u q c where r: "?r = ([RInt 0, RBulk ''rate_exceeded'', RInt u, RInt q, RInt c], st)"
          by blast
        with Some tok Connected assms
        have "rc2 = Connected st \<and>
              resp = createDeniedResponse 429 ''rate_exceeded''
                       ''Rate limit exceeded - too many requests per second''"
          by (auto simp: Check_def checkRateLimit_def parseLuaResult_def getErrorMessage_def Let_def)
        with Some tok Connected r show ?thesis by blast
      next
        assume "\<exists>u q c st2. ?r = ([RInt 0, RBulk ''quota_exceeded'', RInt u, RInt q, RInt c], st2)"
        then obtain u q c st2
          where r: "?r = ([RInt 0, RBulk ''quota_exceeded'', RInt u, RInt q, RInt c], st2)"
          by blast
        with Some tok Connected assms
        have "rc2 = Connected st2 \<and>
              resp = createDeniedResponse 429 ''quota_exceeded''
                       (''Bot quota exceeded ('' @ FormatInt u @ ''/'' @ FormatInt q @ '' requests used)'')"
          by (auto simp: Check_def checkRateLimit_def parseLuaResult_def getErrorMessage_def Let_def)
        with Some tok Connected r show ?thesis by blast
      qed
    qed
  qed
qed

lemma denied_reason_header:
  assumes "Response (createDeniedResponse status reason message) = DeniedResponse code hs body"
    and "\<lparr>Key = ''x-rate-limit-reason'', Value = r\<rparr> \<in> set hs"
  shows "r = reason" and "code = status"
  using assms by (auto simp: createDeniedResponse_def Let_def split: if_splits)

subsection \<open>The two readings of the scripts agree below \<open>2 ^ 53\<close>\<close>

lemma round_double_exact: "\<bar>x\<bar> \<le> 2 ^ 53 \<Longrightarrow> round_double x = Some x"
  by (simp add: round_double_def)





lemma reduceUsageScriptLua_exact:
  assumes "case st k of None \<Rightarrow> True | Some e \<Rightarrow> \<bar>val e\<bar> \<le> 2 ^ 53"
  shows "reduceUsageScriptLua k 1 st = Some (reduceUsageScript k 1 st)"
proof (cases "st k")
  case None
  then show ?thesis
    by (simp add: reduceUsageScriptLua_def reduceUsageScript_def redis_exists_def)
next
  case (Some e)
  with assms have b: "\<bar>val e\<bar> \<le> 2 ^ 53" by simp
  have "\<exists>d. round_double (val e - 1) = Some d \<and> max 0 d = max 0 (val e - 1)"
    using b by (auto simp: round_double_def)
  then obtain dd where dd: "round_double (val e - 1) = Some dd" "max 0 dd = max 0 (val e - 1)"
    by blast
  from Some b dd show ?thesis
    by (simp add: reduceUsageScriptLua_def reduceUsageScript_def redis_exists_def lua_get_or_0_def
        redis_get_def redis_set_def round_double_exact Let_def)
qed

subsection \<open>Allow: both counters are charged\<close>




subsection \<open>Deny: usage is not charged\<close>

text \<open>
  C4. Whenever \<open>Check\<close> answers with a denial whose reason header is \<open>rate_exceeded\<close>
  or \<open>quota_exceeded\<close>, the script ran on a reachable store, the HTTP status is 429, and
  the entry \<open>usage:T\<close> of the store after the call is the entry before it: the call has
  not incremented the tenant's usage.
\<close>

theorem deny_leaves_usage_unchanged:
  assumes "Check now rc req = (resp, rc2)"
    and "Response resp = DeniedResponse code hs body"
    and "\<lparr>Key = ''x-rate-limit-reason'', Value = reason\<rparr> \<in> set hs"
    and "reason = ''rate_exceeded'' \<or> reason = ''quota_exceeded''"
  shows "\<exists>h st st2. req = Some h \<and> rc = Connected st \<and> rc2 = Connected st2 \<and> code = 429 \<and>
           st2 = snd (checkRateLimitScript (generateKeys (extractBotToken (Path h)) now) now 1 st) \<and>
           st2 (''usage:'' @ split_colon_first (extractBotToken (Path h))) =
             st (''usage:'' @ split_colon_first (extractBotToken (Path h)))"
proof -
  note hdr = denied_reason_header [OF _ assms(3)]
  from Check_denied_cases [OF assms(1,2)] show ?thesis
  proof (elim disjE exE conjE)
    assume "resp = createDeniedResponse 401 ''missing_http_attributes'' ''No HTTP attributes found''"
    with assms(2) hdr assms(4) show ?thesis by fastforce
  next
    fix h
    assume "resp = createDeniedResponse 401 ''invalid_bot_token'' ''Invalid or missing bot token in URL''"
    with assms(2) hdr assms(4) show ?thesis by fastforce
  next
    fix h
    assume "resp = createDeniedResponse 500 ''rate_limit_error'' ''Internal rate limiting error''"
    with assms(2) hdr assms(4) show ?thesis by fastforce
  next
    fix h st u q c
    assume a: "req = Some h" "rc = Connected st" "rc2 = Connected st"
      "checkRateLimitScript (generateKeys (extractBotToken (Path h)) now) now 1 st =
         ([RInt 0, RBulk ''rate_exceeded'', RInt u, RInt q, RInt c], st)"
      and r: "resp = createDeniedResponse 429 ''rate_exceeded''
                ''Rate limit exceeded - too many requests per second''"
    from r assms(2) hdr have "code = 429" by fastforce
    with a show ?thesis by simp
  next
    fix h st st2 u q c
    assume a: "req = Some h" "rc = Connected st" "rc2 = Connected st2"
      and s: "checkRateLimitScript (generateKeys (extractBotToken (Path h)) now) now 1 st =
         ([RInt 0, RBulk ''quota_exceeded'', RInt u, RInt q, RInt c], st2)"
      and r: "resp = createDeniedResponse 429 ''quota_exceeded''
                (''Bot quota exceeded ('' @ FormatInt u @ ''/'' @ FormatInt q @ '' requests used)'')"
    from r assms(2) hdr have "code = 429" by fastforce
    moreover from script_quota_exceeded(1) [OF generateKeys_distinct(1) s]
    have "st2 (''usage:'' @ split_colon_first (extractBotToken (Path h))) =
            st (''usage:'' @ split_colon_first (extractBotToken (Path h)))"
      by (simp add: generateKeys_fields)
    ultimately show ?thesis using a s by simp
  qed
qed

theorem deny_leaves_usage_unchanged_witness:
  "\<exists>resp rc2 hs body.
     Check 7 (Connected [''rate_limit:42'' \<mapsto> \<lparr>val = 10, ttl = None\<rparr>,
                         ''quota:42'' \<mapsto> \<lparr>val = 2, ttl = None\<rparr>,
                         ''usage:42'' \<mapsto> \<lparr>val = 2, ttl = None\<rparr>])
       (Some \<lparr>Method = ''GET'', Path = ''/bot42:XYZ/getMe''\<rparr>) = (resp, rc2) \<and>
     Response resp = DeniedResponse 429 hs body \<and>
     \<lparr>Key = ''x-rate-limit-reason'', Value = ''quota_exceeded''\<rparr> \<in> set hs \<and>
     (\<exists>st2. rc2 = Connected st2 \<and> st2 ''usage:42'' = Some \<lparr>val = 2, ttl = None\<rparr>)"
proof -
  let ?st = "[''rate_limit:42'' \<mapsto> \<lparr>val = 10, ttl = None\<rparr>,
              ''quota:42'' \<mapsto> \<lparr>val = 2, ttl = None\<rparr>,
              ''usage:42'' \<mapsto> \<lparr>val = 2, ttl = None\<rparr>]"
  let ?req = "Some \<lparr>Method = ''GET'', Path = ''/bot42:XYZ/getMe''\<rparr>"
  obtain resp rc2 where c: "Check 7 (Connected ?st) ?req = (resp, rc2)"
    by (cases "Check 7 (Connected ?st) ?req")
  have tok: "extractBotToken ''/bot42:XYZ/getMe'' = ''42:XYZ''"
    by (simp add: extractBotToken_def botTokenRegex_def is_digit_def is_token_char_def)
  have "\<exists>hs body. Response resp = DeniedResponse 429 hs body \<and>
          \<lparr>Key = ''x-rate-limit-reason'', Value = ''quota_exceeded''\<rparr> \<in> set hs"
    using c
    by (auto simp: Check_def tok checkRateLimit_def generateKeys_def split_colon_first_def
        checkRateLimitScript_def redis_get_def redis_incrby_def redis_expire_def parseLuaResult_def
        createDeniedResponse_def FormatInt_def dec_nat.simps digit_char_def Let_def)
  then obtain hs body where d: "Response resp = DeniedResponse 429 hs body"
    and r: "\<lparr>Key = ''x-rate-limit-reason'', Value = ''quota_exceeded''\<rparr> \<in> set hs"
    by blast
  from deny_leaves_usage_unchanged [OF c d r] c d r show ?thesis
    by (auto simp: tok split_colon_first_def)
qed

subsection \<open>Unprovisioned tenants are denied\<close>

text \<open>
  C7. Take a request whose path carries a bot token of tenant \<open>T\<close>, and a reachable store.
  If the store has no \<open>rate_limit:T\<close>, the script replies
  \<open>(0, rate_exceeded, 0, 0, 0)\<close> and leaves the store as it is, and \<open>Check\<close> denies with
  HTTP 429 and reason \<open>rate_exceeded\<close>. If it has \<open>rate_limit:T\<close> but no \<open>quota:T\<close>, the
  script replies \<open>(0, quota_exceeded, 0, 0, 0)\<close>, again without touching the store, and
  \<open>Check\<close> denies with HTTP 429 and reason \<open>quota_exceeded\<close>. This holds at every time
  \<open>now\<close>: no default limit is granted.
\<close>

theorem unprovisioned_tenant_is_denied:
  assumes "extractBotToken (Path h) \<noteq> ''''"
  shows
    "(let T = split_colon_first (extractBotToken (Path h));
          keys = generateKeys (extractBotToken (Path h)) now
      in (st (''rate_limit:'' @ T) = None \<longrightarrow>
            checkRateLimitScript keys now 1 st =
              ([RInt 0, RBulk ''rate_exceeded'', RInt 0, RInt 0, RInt 0], st) \<and>
            Check now (Connected st) (Some h) =
              (createDeniedResponse 429 ''rate_exceeded''
                 ''Rate limit exceeded - too many requests per second'', Connected st) \<and>
            (\<exists>body. Response (fst (Check now (Connected st) (Some h))) =
               DeniedResponse 429
                 [\<lparr>Key = ''x-rate-limit-reason'', Value = ''rate_exceeded''\<rparr>,
                  \<lparr>Key = ''retry-after'', Value = ''1''\<rparr>,
                  \<lparr>Key = ''content-type'', Value = ''application/json''\<rparr>] body)) \<and>
         (st (''rate_limit:'' @ T) \<noteq> None \<and> st (''quota:'' @ T) = None \<longrightarrow>
            checkRateLimitScript keys now 1 st =
              ([RInt 0, RBulk ''quota_exceeded'', RInt 0, RInt 0, RInt 0], st) \<and>
            Check now (Connected st) (Some h) =
              (createDeniedResponse 429 ''quota_exceeded''
                 ''Bot quota exceeded (0/0 requests used)'', Connected st) \<and>
            (\<exists>body. Response (fst (Check now (Connected st) (Some h))) =
               DeniedResponse 429
                 [\<lparr>Key = ''x-rate-limit-reason'', Value = ''quota_exceeded''\<rparr>,
                  \<lparr>Key = ''retry-after'', Value = ''3600''\<rparr>,
                  \<lparr>Key = ''content-type'', Value = ''application/json''\<rparr>] body)))"
proof -
  let ?keys = "generateKeys (extractBotToken (Path h)) now"
  let ?T = "split_colon_first (extractBotToken (Path h))"
  have zero: "FormatInt 0 = ''0''"
    by (simp add: FormatInt_def dec_nat.simps digit_char_def)
  have rate: "checkRateLimitScript ?keys now 1 st =
                ([RInt 0, RBulk ''rate_exceeded'', RInt 0, RInt 0, RInt 0], st)"
    if "st (''rate_limit:'' @ ?T) = None"
    using that by (simp add: checkRateLimitScript_def redis_get_def generateKeys_fields)
  have quota: "checkRateLimitScript ?keys now 1 st =
                ([RInt 0, RBulk ''quota_exceeded'', RInt 0, RInt 0, RInt 0], st)"
    if "st (''rate_limit:'' @ ?T) \<noteq> None" "st (''quota:'' @ ?T) = None"
    using that by (auto simp: checkRateLimitScript_def redis_get_def generateKeys_fields)
  have c1: "Check now (Connected st) (Some h) =
              (createDeniedResponse 429 ''rate_exceeded''
                 ''Rate limit exceeded - too many requests per second'', Connected st)"
    if "st (''rate_limit:'' @ ?T) = None"
    using assms rate [OF that]
    by (simp add: Check_def checkRateLimit_def parseLuaResult_def getErrorMessage_def Let_def)
  have c2: "Check now (Connected st) (Some h) =
              (createDeniedResponse 429 ''quota_exceeded''
                 ''Bot quota exceeded (0/0 requests used)'', Connected st)"
    if "st (''rate_limit:'' @ ?T) \<noteq> None" "st (''quota:'' @ ?T) = None"
    using assms quota [OF that]
    by (simp add: Check_def checkRateLimit_def parseLuaResult_def getErrorMessage_def zero Let_def)
  show ?thesis
    unfolding Let_def
  proof (intro conjI impI)
    assume a: "st (''rate_limit:'' @ ?T) = None"
    show "checkRateLimitScript ?keys now 1 st =
            ([RInt 0, RBulk ''rate_exceeded'', RInt 0, RInt 0, RInt 0], st)"
      by (rule rate [OF a])
    show "Check now (Connected st) (Some h) =
            (createDeniedResponse 429 ''rate_exceeded''
               ''Rate limit exceeded - too many requests per second'', Connected st)"
      by (rule c1 [OF a])
    show "\<exists>body. Response (fst (Check now (Connected st) (Some h))) =
            DeniedResponse 429
              [\<lparr>Key = ''x-rate-limit-reason'', Value = ''rate_exceeded''\<rparr>,
               \<lparr>Key = ''retry-after'', Value = ''1''\<rparr>,
               \<lparr>Key = ''content-type'', Value = ''application/json''\<rparr>] body"
      by (simp add: c1 [OF a] createDeniedResponse_def)
  next
    assume b: "st (''rate_limit:'' @ ?T) \<noteq> None \<and> st (''quota:'' @ ?T) = None"
    then have b1: "st (''rate_limit:'' @ ?T) \<noteq> None" and b2: "st (''quota:'' @ ?T) = None"
      by simp_all
    show "checkRateLimitScript ?keys now 1 st =
            ([RInt 0, RBulk ''quota_exceeded'', RInt 0, RInt 0, RInt 0], st)"
      by (rule quota [OF b1 b2])
    show "Check now (Connected st) (Some h) =
            (createDeniedResponse 429 ''quota_exceeded''
               ''Bot quota exceeded (0/0 requests used)'', Connected st)"
      by (rule c2 [OF b1 b2])
    show "\<exists>body. Response (fst (Check now (Connected st) (Some h))) =
            DeniedResponse 429
              [\<lparr>Key = ''x-rate-limit-reason'', Value = ''quota_exceeded''\<rparr>,
               \<lparr>Key = ''retry-after'', Value = ''3600''\<rparr>,
               \<lparr>Key = ''content-type'', Value = ''application/json''\<rparr>] body"
      by (simp add: c2 [OF b1 b2] createDeniedResponse_def)
  qed
qed

theorem unprovisioned_tenant_is_denied_witness:
  "extractBotToken ''/bot99:XYZ/getMe'' \<noteq> '''' \<and>
   (Map.empty :: store) ''rate_limit:99'' = None \<and>
   Check 7 (Connected Map.empty) (Some \<lparr>Method = ''GET'', Path = ''/bot99:XYZ/getMe''\<rparr>) =
     (createDeniedResponse 429 ''rate_exceeded''
        ''Rate limit exceeded - too many requests per second'', Connected Map.empty) \<and>
   [''rate_limit:99'' \<mapsto> \<lparr>val = 5, ttl = None\<rparr>] ''rate_limit:99'' \<noteq> None \<and>
   [''rate_limit:99'' \<mapsto> \<lparr>val = 5, ttl = None\<rparr>] ''quota:99'' = None \<and>
   Check 7 (Connected [''rate_limit:99'' \<mapsto> \<lparr>val = 5, ttl = None\<rparr>])
     (Some \<lparr>Method = ''GET'', Path = ''/bot99:XYZ/getMe''\<rparr>) =
     (createDeniedResponse 429 ''quota_exceeded'' ''Bot quota exceeded (0/0 requests used)'',
      Connected [''rate_limit:99'' \<mapsto> \<lparr>val = 5, ttl = None\<rparr>])"
proof -
  let ?h = "\<lparr>Method = ''GET'', Path = ''/bot99:XYZ/getMe''\<rparr>"
  have tok: "extractBotToken ''/bot99:XYZ/getMe'' = ''99:XYZ''"
    by (simp add: extractBotToken_def botTokenRegex_def is_digit_def is_token_char_def)
  then have ne: "extractBotToken (Path ?h) \<noteq> ''''" by simp
  from unprovisioned_tenant_is_denied [OF ne, of 7 Map.empty]
    unprovisioned_tenant_is_denied [OF ne, of 7 "[''rate_limit:99'' \<mapsto> \<lparr>val = 5, ttl = None\<rparr>]"]
  show ?thesis
    by (simp add: tok split_colon_first_def Let_def)
qed

subsection \<open>A quota denial still takes a rate slot\<close>

text \<open>
  C8. Take a \<open>Check\<close> for tenant \<open>T\<close> at second \<open>S\<close> that is denied with reason
  \<open>quota_exceeded\<close> while \<open>quota:T\<close> is provisioned. Then the rate check had passed
  (\<open>counter + 1 \<le> rate_limit\<close>), the quota check failed (\<open>quota < usage + 1\<close>), and in
  the store after the call \<open>counter:T:S\<close> is \<open>counter + 1\<close> with a time to live of one
  second, while the entry \<open>usage:T\<close> is what it was.
\<close>

theorem quota_denial_consumes_rate_slot:
  assumes "Check now (Connected st) (Some h) = (resp, rc2)"
    and "Response resp = DeniedResponse code hs body"
    and "\<lparr>Key = ''x-rate-limit-reason'', Value = ''quota_exceeded''\<rparr> \<in> set hs"
    and "st (''quota:'' @ split_colon_first (extractBotToken (Path h))) \<noteq> None"
  shows
    "(let T = split_colon_first (extractBotToken (Path h));
          counterKey = ''counter:'' @ T @ '':'' @ FormatInt now;
          usageKey = ''usage:'' @ T;
          counter = (case st counterKey of None \<Rightarrow> 0 | Some e \<Rightarrow> val e);
          usage = (case st usageKey of None \<Rightarrow> 0 | Some e \<Rightarrow> val e)
      in \<exists>st2 r q. rc2 = Connected st2 \<and>
           redis_get st (''rate_limit:'' @ T) = Some r \<and> counter + 1 \<le> r \<and>
           redis_get st (''quota:'' @ T) = Some q \<and> q < usage + 1 \<and>
           st2 counterKey = Some \<lparr>val = counter + 1, ttl = Some 1\<rparr> \<and>
           st2 usageKey = st usageKey)"
proof -
  note hdr = denied_reason_header(1) [OF _ assms(3)]
  let ?keys = "generateKeys (extractBotToken (Path h)) now"
  from Check_denied_cases [OF assms(1,2)] show ?thesis
  proof (elim disjE exE conjE)
    assume "Some h = None"
    then show ?thesis by simp
  next
    fix h2
    assume "resp = createDeniedResponse 401 ''invalid_bot_token'' ''Invalid or missing bot token in URL''"
    with assms(2) hdr show ?thesis by fastforce
  next
    fix h2
    assume "Connected st = Unreachable"
    then show ?thesis by simp
  next
    fix h2 st1 u q c
    assume "resp = createDeniedResponse 429 ''rate_exceeded''
              ''Rate limit exceeded - too many requests per second''"
    with assms(2) hdr show ?thesis by fastforce
  next
    fix h2 st1 st2 u q c
    assume a: "Some h = Some h2" "Connected st = Connected st1" "rc2 = Connected st2"
      and s: "checkRateLimitScript (generateKeys (extractBotToken (Path h2)) now) now 1 st1 =
         ([RInt 0, RBulk ''quota_exceeded'', RInt u, RInt q, RInt c], st2)"
    from a s have s2: "checkRateLimitScript ?keys now 1 st =
         ([RInt 0, RBulk ''quota_exceeded'', RInt u, RInt q, RInt c], st2)"
      by simp
    from assms(4) have qp: "redis_get st (QuotaLimitKey ?keys) \<noteq> None"
      by (simp add: redis_get_def generateKeys_fields)
    from script_quota_exceeded(1) [OF generateKeys_distinct(1) s2]
      script_quota_exceeded(2) [OF generateKeys_distinct(1) s2 qp] a(3)
    show ?thesis
      by (auto simp: generateKeys_fields Let_def)
  qed
qed

theorem quota_denial_consumes_rate_slot_witness:
  "\<exists>resp rc2 hs body.
     Check 7 (Connected [''rate_limit:42'' \<mapsto> \<lparr>val = 10, ttl = None\<rparr>,
                         ''quota:42'' \<mapsto> \<lparr>val = 2, ttl = None\<rparr>,
                         ''usage:42'' \<mapsto> \<lparr>val = 2, ttl = None\<rparr>])
       (Some \<lparr>Method = ''GET'', Path = ''/bot42:XYZ/getMe''\<rparr>) = (resp, rc2) \<and>
     Response resp = DeniedResponse 429 hs body \<and>
     \<lparr>Key = ''x-rate-limit-reason'', Value = ''quota_exceeded''\<rparr> \<in> set hs \<and>
     (\<exists>st2. rc2 = Connected st2 \<and>
        st2 ''counter:42:7'' = Some \<lparr>val = 1, ttl = Some 1\<rparr> \<and>
        st2 ''usage:42'' = Some \<lparr>val = 2, ttl = None\<rparr>)"
proof -
  let ?st = "[''rate_limit:42'' \<mapsto> \<lparr>val = 10, ttl = None\<rparr>,
              ''quota:42'' \<mapsto> \<lparr>val = 2, ttl = None\<rparr>,
              ''usage:42'' \<mapsto> \<lparr>val = 2, ttl = None\<rparr>]"
  let ?h = "\<lparr>Method = ''GET'', Path = ''/bot42:XYZ/getMe''\<rparr>"
  obtain resp rc2 where c: "Check 7 (Connected ?st) (Some ?h) = (resp, rc2)"
    by (cases "Check 7 (Connected ?st) (Some ?h)")
  have tok: "extractBotToken ''/bot42:XYZ/getMe'' = ''42:XYZ''"
    by (simp add: extractBotToken_def botTokenRegex_def is_digit_def is_token_char_def)
  have "\<exists>hs body. Response resp = DeniedResponse 429 hs body \<and>
          \<lparr>Key = ''x-rate-limit-reason'', Value = ''quota_exceeded''\<rparr> \<in> set hs"
    using c
    by (auto simp: Check_def tok checkRateLimit_def generateKeys_def split_colon_first_def
        checkRateLimitScript_def redis_get_def redis_incrby_def redis_expire_def parseLuaResult_def
        createDeniedResponse_def FormatInt_def dec_nat.simps digit_char_def Let_def)
  then obtain hs body where d: "Response resp = DeniedResponse 429 hs body"
    and r: "\<lparr>Key = ''x-rate-limit-reason'', Value = ''quota_exceeded''\<rparr> \<in> set hs"
    by blast
  have q: "?st (''quota:'' @ split_colon_first (extractBotToken (Path ?h))) \<noteq> None"
    by (simp add: tok split_colon_first_def)
  from quota_denial_consumes_rate_slot [OF c d r q] c d r show ?thesis
    by (auto simp: tok split_colon_first_def FormatInt_def dec_nat.simps digit_char_def Let_def)
qed

subsection \<open>The shape of every denial\<close>



subsection \<open>A token that no slash follows\<close>

lemma dropWhile_all_then: "list_all P xs \<Longrightarrow> \<not> P c \<Longrightarrow> dropWhile P (xs @ c # ys) = c # ys"
  by (induction xs) simp_all

lemma dropWhile_all: "list_all P xs \<Longrightarrow> dropWhile P xs = []"
  by (induction xs) simp_all

lemma botTokenRegex_no_slash:
  assumes "list_all is_digit ds" and "list_all is_token_char sec"
  shows "botTokenRegex (''/bot'' @ ds @ '':'' @ sec) = None"
proof -
  have colon: "\<not> is_digit CHR '':''" by (simp add: is_digit_def)
  have d1: "dropWhile is_digit (ds @ CHR '':'' # sec) = CHR '':'' # sec"
    by (rule dropWhile_all_then [OF assms(1) colon])
  have d2: "dropWhile is_token_char sec = []"
    by (rule dropWhile_all [OF assms(2)])
  show ?thesis
    by (simp add: botTokenRegex_def Let_def d1 d2)
qed

text \<open>
  C10. For a path that is \<open>/bot\<close>, then one or more digits, a colon, and one or more
  characters of the secret, and nothing after them, the pattern does not match (it asks
  for a slash after the secret), \<open>extractBotToken\<close> returns the empty string, and
  \<open>Check\<close> denies with HTTP 401 and reason \<open>invalid_bot_token\<close>. The answer is the same
  whatever the state of the store, reachable or not, and the store is returned as it
  was: the script is not run.
\<close>

theorem token_without_trailing_slash_is_rejected:
  assumes "ds \<noteq> []" and "list_all is_digit ds"
    and "sec \<noteq> []" and "list_all is_token_char sec"
  shows "botTokenRegex (''/bot'' @ ds @ '':'' @ sec) = None \<and>
         extractBotToken (''/bot'' @ ds @ '':'' @ sec) = '''' \<and>
         Check now rc (Some \<lparr>Method = m, Path = ''/bot'' @ ds @ '':'' @ sec\<rparr>) =
           (createDeniedResponse 401 ''invalid_bot_token'' ''Invalid or missing bot token in URL'',
            rc) \<and>
         Response (fst (Check now rc (Some \<lparr>Method = m, Path = ''/bot'' @ ds @ '':'' @ sec\<rparr>))) =
           DeniedResponse 401
             [\<lparr>Key = ''x-rate-limit-reason'', Value = ''invalid_bot_token''\<rparr>,
              \<lparr>Key = ''content-type'', Value = ''application/json''\<rparr>]
             (''{\"error\": \"invalid_bot_token\", \"message\": ''
                @ ''\"Invalid or missing bot token in URL\"}'')"
proof -
  have n: "botTokenRegex (''/bot'' @ ds @ '':'' @ sec) = None"
    by (rule botTokenRegex_no_slash [OF assms(2,4)])
  then have e: "extractBotToken (''/bot'' @ ds @ '':'' @ sec) = ''''"
    by (simp add: extractBotToken_def)
  from n e show ?thesis
    by (simp add: Check_def createDeniedResponse_def)
qed

theorem token_without_trailing_slash_is_rejected_witness:
  "''123'' \<noteq> '''' \<and> list_all is_digit ''123'' \<and> ''ABC'' \<noteq> '''' \<and> list_all is_token_char ''ABC'' \<and>
   extractBotToken ''/bot123:ABC'' = '''' \<and>
   Check 7 (Connected [''rate_limit:123'' \<mapsto> \<lparr>val = 5, ttl = None\<rparr>,
                       ''quota:123'' \<mapsto> \<lparr>val = 5, ttl = None\<rparr>])
     (Some \<lparr>Method = ''GET'', Path = ''/bot123:ABC''\<rparr>) =
     (createDeniedResponse 401 ''invalid_bot_token'' ''Invalid or missing bot token in URL'',
      Connected [''rate_limit:123'' \<mapsto> \<lparr>val = 5, ttl = None\<rparr>,
                 ''quota:123'' \<mapsto> \<lparr>val = 5, ttl = None\<rparr>]) \<and>
   extractBotToken ''/bot123:ABC/'' = ''123:ABC''"
proof -
  have a: "''123'' \<noteq> ''''" "list_all is_digit ''123''" "''ABC'' \<noteq> ''''"
    "list_all is_token_char ''ABC''"
    by (simp_all add: is_digit_def is_token_char_def)
  have t: "extractBotToken ''/bot123:ABC/'' = ''123:ABC''"
    by (simp add: extractBotToken_def botTokenRegex_def is_digit_def is_token_char_def)
  from token_without_trailing_slash_is_rejected [OF a, of 7
      "Connected [''rate_limit:123'' \<mapsto> \<lparr>val = 5, ttl = None\<rparr>,
                  ''quota:123'' \<mapsto> \<lparr>val = 5, ttl = None\<rparr>]" "''GET''"] a t
  show ?thesis by simp
qed

subsection \<open>The header x-rate-limit\<close>

text \<open>
  C1. The claim is that an OK response carries the tenant's provisioned \<open>rate_limit:T\<close>
  in the header \<open>x-rate-limit\<close>. The script's reply has no field for the rate limit, and
  \<open>parseLuaResult\<close> fills \<open>RateLimit\<close> with the constant 50. With \<open>rate_limit:42 = 2\<close>
  and \<open>quota:42 = 3\<close>, the request \<open>/bot42:XYZ/getMe\<close> is allowed and the header reads
  \<open>50\<close>, where the provisioned value renders as \<open>2\<close>.
\<close>

theorem x_rate_limit_header_at_provisioned_limit_2:
  "redis_get [''rate_limit:42'' \<mapsto> \<lparr>val = 2, ttl = None\<rparr>,
              ''quota:42'' \<mapsto> \<lparr>val = 3, ttl = None\<rparr>] ''rate_limit:42'' = Some 2 \<and>
   FormatInt 2 = ''2'' \<and>
   Response (fst (Check 7
       (Connected [''rate_limit:42'' \<mapsto> \<lparr>val = 2, ttl = None\<rparr>,
                   ''quota:42'' \<mapsto> \<lparr>val = 3, ttl = None\<rparr>])
       (Some \<lparr>Method = ''GET'', Path = ''/bot42:XYZ/getMe''\<rparr>))) =
     OkResponse
       [\<lparr>Key = ''x-bot-token'', Value = ''42:XYZ''\<rparr>,
        \<lparr>Key = ''x-quota-remaining'', Value = ''2''\<rparr>,
        \<lparr>Key = ''x-quota-limit'', Value = ''3''\<rparr>,
        \<lparr>Key = ''x-rate-limit'', Value = ''50''\<rparr>,
        \<lparr>Key = ''content-type'', Value = ''application/json''\<rparr>]"
proof -
  have tok: "extractBotToken ''/bot42:XYZ/getMe'' = ''42:XYZ''"
    by (simp add: extractBotToken_def botTokenRegex_def is_digit_def is_token_char_def)
  show ?thesis
    by (simp add: Check_def tok checkRateLimit_def generateKeys_def split_colon_first_def
        checkRateLimitScript_def redis_get_def redis_incrby_def redis_expire_def parseLuaResult_def
        createAllowedResponse_def FormatInt_def dec_nat.simps digit_char_def int64_sub_def
        wrap64_def Let_def)
qed

section \<open>Properties of the usage adjuster\<close>

subsection \<open>The refund script\<close>




subsection \<open>Refunds on response headers\<close>

lemma paid_status_set:
  "map_bool (paidStatusCodes NewUsageTrackingService) code =
     (code \<in> {200, 201, 202, 204, 206, 304})"
  by (simp add: map_bool_def NewUsageTrackingService_def)

lemma processRequestHeaders_paidStatusCodes:
  "paidStatusCodes (snd (processRequestHeaders s headers)) = paidStatusCodes s"
  by (simp add: processRequestHeaders_def split: prod.splits)

text \<open>Only \<open>processRequestHeaders\<close> writes to the table, and it stores neither an empty
  request ID nor an empty token.\<close>

lemma processRequestHeaders_stores_nonempty:
  assumes "requestTokens (snd (processRequestHeaders s headers)) requestID = Some botToken"
  shows "requestTokens s requestID = Some botToken \<or> (requestID \<noteq> '''' \<and> botToken \<noteq> '''')"
  using assms
  by (auto simp: processRequestHeaders_def split: prod.splits if_splits)

text \<open>
  C6, as stated, fails when the store cannot be reached. Let the table hold the token
  \<open>42:XYZ\<close> under the request ID \<open>r1\<close>, and let a response-headers message with status
  502 and that request ID arrive while the script call fails. The status is not paid
  and the entry is present, yet no refund happens: the call fails, the error is
  swallowed, and the entry is gone, so the same message on a store that is reachable
  again, with \<open>usage:42 = 1\<close>, leaves that store as it is.
\<close>

theorem refund_is_lost_when_the_store_call_fails:
  "(502 :: int) \<notin> {200, 201, 202, 204, 206, 304} \<and>
   scanResponseHeaders [\<lparr>Key = '':status'', Value = ''502''\<rparr>,
                        \<lparr>Key = ''x-request-id'', Value = ''r1''\<rparr>] = (502, ''r1'') \<and>
   requestTokens
     (snd (processRequestHeaders NewUsageTrackingService
             [\<lparr>Key = ''x-bot-token'', Value = ''42:XYZ''\<rparr>,
              \<lparr>Key = ''x-request-id'', Value = ''r1''\<rparr>])) ''r1'' = Some ''42:XYZ'' \<and>
   snd (snd (processResponseHeaders
     (snd (processRequestHeaders NewUsageTrackingService
             [\<lparr>Key = ''x-bot-token'', Value = ''42:XYZ''\<rparr>,
              \<lparr>Key = ''x-request-id'', Value = ''r1''\<rparr>]))
     Unreachable
     [\<lparr>Key = '':status'', Value = ''502''\<rparr>, \<lparr>Key = ''x-request-id'', Value = ''r1''\<rparr>])) =
     Unreachable \<and>
   requestTokens (fst (snd (processResponseHeaders
     (snd (processRequestHeaders NewUsageTrackingService
             [\<lparr>Key = ''x-bot-token'', Value = ''42:XYZ''\<rparr>,
              \<lparr>Key = ''x-request-id'', Value = ''r1''\<rparr>]))
     Unreachable
     [\<lparr>Key = '':status'', Value = ''502''\<rparr>, \<lparr>Key = ''x-request-id'', Value = ''r1''\<rparr>])))
     ''r1'' = None \<and>
   snd (snd (processResponseHeaders
     (fst (snd (processResponseHeaders
        (snd (processRequestHeaders NewUsageTrackingService
                [\<lparr>Key = ''x-bot-token'', Value = ''42:XYZ''\<rparr>,
                 \<lparr>Key = ''x-request-id'', Value = ''r1''\<rparr>]))
        Unreachable
        [\<lparr>Key = '':status'', Value = ''502''\<rparr>, \<lparr>Key = ''x-request-id'', Value = ''r1''\<rparr>])))
     (Connected [''usage:42'' \<mapsto> \<lparr>val = 1, ttl = None\<rparr>])
     [\<lparr>Key = '':status'', Value = ''502''\<rparr>, \<lparr>Key = ''x-request-id'', Value = ''r1''\<rparr>])) =
     Connected [''usage:42'' \<mapsto> \<lparr>val = 1, ttl = None\<rparr>]"
proof -
  have sc: "scanResponseHeaders [\<lparr>Key = '':status'', Value = ''502''\<rparr>,
                        \<lparr>Key = ''x-request-id'', Value = ''r1''\<rparr>] = (502, ''r1'')"
    by (simp add: scanResponseHeaders_def responseHeaderStep_def Atoi_def is_digit_def
        dec_val_def digit_val_def)
  show ?thesis
    by (simp add: sc processResponseHeaders_def processRequestHeaders_def requestHeaderStep_def
        processResponse_def NewUsageTrackingService_def map_bool_def Let_def)
qed

text \<open>
  C6, amended: let the adjuster process a response-headers message, and let \<open>statusCode\<close>
  and \<open>requestID\<close> be what it reads from the headers. If the status is one of 200, 201,
  202, 204, 206, 304, the store is left as it is: no refund. If the status is any other
  and the table has a token for the request ID, the refund script is called once on
  \<open>usage:T\<close> with cost 1. When the store cannot be reached the call fails and nothing is
  refunded. When it can, no key other than \<open>usage:T\<close> changes, an absent \<open>usage:T\<close> stays
  absent, and a value of magnitude at most \<open>2 ^ 53\<close> drops by one, not below zero: the
  store is then the one that a single run of the script leaves, on the integer reading
  and on Lua numbers alike. In both cases the entry of the request ID is gone from both
  tables, and a further response-headers message with the same request ID, whatever its
  status and whatever the state of the store, changes neither the store nor the tables.
\<close>

theorem response_headers_refund_at_most_once:
  assumes p: "paidStatusCodes s = paidStatusCodes NewUsageTrackingService"
    and sc: "scanResponseHeaders headers = (statusCode, requestID)"
    and r: "processResponseHeaders s rc headers = (resp, s2, rc2)"
  shows
    "(statusCode \<in> {200, 201, 202, 204, 206, 304} \<longrightarrow> rc2 = rc) \<and>
     (statusCode \<notin> {200, 201, 202, 204, 206, 304} \<and> requestID \<noteq> '''' \<and>
      requestTokens s requestID = Some botToken \<and> botToken \<noteq> '''' \<longrightarrow>
        (let k = ''usage:'' @ split_colon_first botToken in
           case rc of
             Unreachable \<Rightarrow> rc2 = Unreachable
           | Connected st \<Rightarrow>
               (\<exists>stAfter. rc2 = Connected stAfter \<and>
                  (\<forall>other. other \<noteq> k \<longrightarrow> stAfter other = st other) \<and>
                  (case st k of
                     None \<Rightarrow> stAfter k = None
                   | Some e \<Rightarrow>
                       \<bar>val e\<bar> \<le> 2 ^ 53 \<longrightarrow>
                         stAfter k = Some \<lparr>val = max 0 (val e - 1), ttl = None\<rparr> \<and>
                         stAfter = snd (reduceUsageScript k 1 st) \<and>
                         reduceUsageScriptLua k 1 st = Some (reduceUsageScript k 1 st)))) \<and>
        requestTokens s2 requestID = None \<and> requestQuotas s2 requestID = None \<and>
        (scanResponseHeaders dupHeaders = (dupStatus, requestID) \<longrightarrow>
           snd (processResponseHeaders s2 dupRc dupHeaders) = (s2, dupRc)))"
proof (intro conjI impI)
  assume "statusCode \<in> {200, 201, 202, 204, 206, 304}"
  then have "map_bool (paidStatusCodes s) statusCode"
    by (simp only: p paid_status_set)
  with r sc show "rc2 = rc"
    by (auto simp: processResponseHeaders_def processResponse_def Let_def
        split: option.splits if_splits)
next
  assume a: "statusCode \<notin> {200, 201, 202, 204, 206, 304} \<and> requestID \<noteq> '''' \<and>
      requestTokens s requestID = Some botToken \<and> botToken \<noteq> ''''"
  then have np: "\<not> map_bool (paidStatusCodes s) statusCode"
    by (simp only: p paid_status_set simp_thms)
  let ?k = "''usage:'' @ split_colon_first botToken"
  from a r sc np have rc2: "rc2 = processResponse s2 rc botToken statusCode"
    by (auto simp: processResponseHeaders_def Let_def split: option.splits)
  from a r sc have ps: "paidStatusCodes s2 = paidStatusCodes s"
    by (auto simp: processResponseHeaders_def Let_def split: option.splits)
  have un: "rc2 = Unreachable" if "rc = Unreachable"
    using that rc2 np ps by (simp add: processResponse_def Let_def)
  have co: "rc2 = Connected (snd (reduceUsageScript ?k 1 st))" if "rc = Connected st" for st
    using that rc2 np ps by (simp add: processResponse_def generateUsageKeys_def Let_def)
  have frame: "\<forall>other. other \<noteq> ?k \<longrightarrow> snd (reduceUsageScript ?k 1 st) other = st other" for st
    by (simp add: reduceUsageScript_def redis_set_def Let_def)
  have eff: "case st ?k of
               None \<Rightarrow> snd (reduceUsageScript ?k 1 st) ?k = None
             | Some e \<Rightarrow>
                 \<bar>val e\<bar> \<le> 2 ^ 53 \<longrightarrow>
                   snd (reduceUsageScript ?k 1 st) ?k = Some \<lparr>val = max 0 (val e - 1), ttl = None\<rparr> \<and>
                   snd (reduceUsageScript ?k 1 st) = snd (reduceUsageScript ?k 1 st) \<and>
                   reduceUsageScriptLua ?k 1 st = Some (reduceUsageScript ?k 1 st)" for st
    using reduceUsageScriptLua_exact [of st ?k]
    by (simp add: reduceUsageScript_def redis_exists_def redis_get_def redis_set_def Let_def
        split: option.splits)
  show "let k = ''usage:'' @ split_colon_first botToken in
           case rc of
             Unreachable \<Rightarrow> rc2 = Unreachable
           | Connected st \<Rightarrow>
               (\<exists>stAfter. rc2 = Connected stAfter \<and>
                  (\<forall>other. other \<noteq> k \<longrightarrow> stAfter other = st other) \<and>
                  (case st k of
                     None \<Rightarrow> stAfter k = None
                   | Some e \<Rightarrow>
                       \<bar>val e\<bar> \<le> 2 ^ 53 \<longrightarrow>
                         stAfter k = Some \<lparr>val = max 0 (val e - 1), ttl = None\<rparr> \<and>
                         stAfter = snd (reduceUsageScript k 1 st) \<and>
                         reduceUsageScriptLua k 1 st = Some (reduceUsageScript k 1 st)))"
    unfolding Let_def
  proof (cases rc)
    case Unreachable
    with un show "case rc of
             Unreachable \<Rightarrow> rc2 = Unreachable
           | Connected st \<Rightarrow>
               (\<exists>stAfter. rc2 = Connected stAfter \<and>
                  (\<forall>other. other \<noteq> ?k \<longrightarrow> stAfter other = st other) \<and>
                  (case st ?k of
                     None \<Rightarrow> stAfter ?k = None
                   | Some e \<Rightarrow>
                       \<bar>val e\<bar> \<le> 2 ^ 53 \<longrightarrow>
                         stAfter ?k = Some \<lparr>val = max 0 (val e - 1), ttl = None\<rparr> \<and>
                         stAfter = snd (reduceUsageScript ?k 1 st) \<and>
                         reduceUsageScriptLua ?k 1 st = Some (reduceUsageScript ?k 1 st)))"
      by simp
  next
    case (Connected st)
    have "\<exists>stAfter. rc2 = Connected stAfter \<and>
                  (\<forall>other. other \<noteq> ?k \<longrightarrow> stAfter other = st other) \<and>
                  (case st ?k of
                     None \<Rightarrow> stAfter ?k = None
                   | Some e \<Rightarrow>
                       \<bar>val e\<bar> \<le> 2 ^ 53 \<longrightarrow>
                         stAfter ?k = Some \<lparr>val = max 0 (val e - 1), ttl = None\<rparr> \<and>
                         stAfter = snd (reduceUsageScript ?k 1 st) \<and>
                         reduceUsageScriptLua ?k 1 st = Some (reduceUsageScript ?k 1 st))"
      using co [OF Connected] frame [of st] eff [of st] by blast
    with Connected show "case rc of
             Unreachable \<Rightarrow> rc2 = Unreachable
           | Connected st \<Rightarrow>
               (\<exists>stAfter. rc2 = Connected stAfter \<and>
                  (\<forall>other. other \<noteq> ?k \<longrightarrow> stAfter other = st other) \<and>
                  (case st ?k of
                     None \<Rightarrow> stAfter ?k = None
                   | Some e \<Rightarrow>
                       \<bar>val e\<bar> \<le> 2 ^ 53 \<longrightarrow>
                         stAfter ?k = Some \<lparr>val = max 0 (val e - 1), ttl = None\<rparr> \<and>
                         stAfter = snd (reduceUsageScript ?k 1 st) \<and>
                         reduceUsageScriptLua ?k 1 st = Some (reduceUsageScript ?k 1 st)))"
      by simp
  qed
  from a r sc show t: "requestTokens s2 requestID = None"
    by (auto simp: processResponseHeaders_def Let_def split: option.splits)
  from a r sc show q: "requestQuotas s2 requestID = None"
    by (auto simp: processResponseHeaders_def Let_def split: option.splits)
  assume "scanResponseHeaders dupHeaders = (dupStatus, requestID)"
  with t q show "snd (processResponseHeaders s2 dupRc dupHeaders) = (s2, dupRc)"
    by (simp add: processResponseHeaders_def Let_def)
qed

theorem response_headers_refund_at_most_once_witness:
  "\<exists>s resp s2 rc2 resp3 s3 rc3.
     s = snd (processRequestHeaders NewUsageTrackingService
                [\<lparr>Key = ''x-bot-token'', Value = ''42:XYZ''\<rparr>,
                 \<lparr>Key = ''x-request-id'', Value = ''r1''\<rparr>]) \<and>
     paidStatusCodes s = paidStatusCodes NewUsageTrackingService \<and>
     requestTokens s ''r1'' = Some ''42:XYZ'' \<and>
     scanResponseHeaders [\<lparr>Key = '':status'', Value = ''502''\<rparr>,
                          \<lparr>Key = ''x-request-id'', Value = ''r1''\<rparr>] = (502, ''r1'') \<and>
     (502 :: int) \<notin> {200, 201, 202, 204, 206, 304} \<and>
     processResponseHeaders s (Connected [''usage:42'' \<mapsto> \<lparr>val = 1, ttl = None\<rparr>])
       [\<lparr>Key = '':status'', Value = ''502''\<rparr>, \<lparr>Key = ''x-request-id'', Value = ''r1''\<rparr>] =
       (resp, s2, rc2) \<and>
     \<bar>1 :: int\<bar> \<le> 2 ^ 53 \<and>
     rc2 = Connected [''usage:42'' \<mapsto> \<lparr>val = 0, ttl = None\<rparr>] \<and>
     requestTokens s2 ''r1'' = None \<and>
     snd (processResponseHeaders s2 rc2
            [\<lparr>Key = '':status'', Value = ''502''\<rparr>, \<lparr>Key = ''x-request-id'', Value = ''r1''\<rparr>]) =
       (s2, rc2) \<and>
     scanResponseHeaders [\<lparr>Key = '':status'', Value = ''304''\<rparr>,
                          \<lparr>Key = ''x-request-id'', Value = ''r1''\<rparr>] = (304, ''r1'') \<and>
     (304 :: int) \<in> {200, 201, 202, 204, 206, 304} \<and>
     processResponseHeaders s (Connected [''usage:42'' \<mapsto> \<lparr>val = 1, ttl = None\<rparr>])
       [\<lparr>Key = '':status'', Value = ''304''\<rparr>, \<lparr>Key = ''x-request-id'', Value = ''r1''\<rparr>] =
       (resp3, s3, rc3) \<and>
     rc3 = Connected [''usage:42'' \<mapsto> \<lparr>val = 1, ttl = None\<rparr>]"
proof -
  let ?s = "snd (processRequestHeaders NewUsageTrackingService
                [\<lparr>Key = ''x-bot-token'', Value = ''42:XYZ''\<rparr>,
                 \<lparr>Key = ''x-request-id'', Value = ''r1''\<rparr>])"
  let ?st = "[''usage:42'' \<mapsto> \<lparr>val = 1, ttl = None\<rparr>]"
  let ?hs = "[\<lparr>Key = '':status'', Value = ''502''\<rparr>, \<lparr>Key = ''x-request-id'', Value = ''r1''\<rparr>]"
  let ?hs3 = "[\<lparr>Key = '':status'', Value = ''304''\<rparr>, \<lparr>Key = ''x-request-id'', Value = ''r1''\<rparr>]"
  have p: "paidStatusCodes ?s = paidStatusCodes NewUsageTrackingService"
    by (rule processRequestHeaders_paidStatusCodes)
  have t: "requestTokens ?s ''r1'' = Some ''42:XYZ''"
    by (simp add: processRequestHeaders_def requestHeaderStep_def)
  have sc: "scanResponseHeaders ?hs = (502, ''r1'')"
    by (simp add: scanResponseHeaders_def responseHeaderStep_def Atoi_def is_digit_def
        dec_val_def digit_val_def)
  have sc3: "scanResponseHeaders ?hs3 = (304, ''r1'')"
    by (simp add: scanResponseHeaders_def responseHeaderStep_def Atoi_def is_digit_def
        dec_val_def digit_val_def)
  obtain resp s2 rc2 where r: "processResponseHeaders ?s (Connected ?st) ?hs = (resp, s2, rc2)"
    by (cases "processResponseHeaders ?s (Connected ?st) ?hs")
  obtain resp3 s3 rc3 where r3: "processResponseHeaders ?s (Connected ?st) ?hs3 = (resp3, s3, rc3)"
    by (cases "processResponseHeaders ?s (Connected ?st) ?hs3")
  have u: "snd (reduceUsageScript ''usage:42'' 1 ?st) = [''usage:42'' \<mapsto> \<lparr>val = 0, ttl = None\<rparr>]"
    by (simp add: reduceUsageScript_def redis_exists_def redis_get_def redis_set_def)
  from response_headers_refund_at_most_once [OF p sc r, where botToken = "''42:XYZ''"
         and dupHeaders = ?hs and dupStatus = 502 and dupRc = rc2]
       response_headers_refund_at_most_once [OF p sc3 r3, where botToken = "''42:XYZ''"
         and dupHeaders = ?hs3 and dupStatus = 304 and dupRc = rc3]
       t
  have f: "rc2 = Connected [''usage:42'' \<mapsto> \<lparr>val = 0, ttl = None\<rparr>] \<and>
           requestTokens s2 ''r1'' = None \<and>
           snd (processResponseHeaders s2 rc2 ?hs) = (s2, rc2) \<and>
           rc3 = Connected ?st"
    by (auto simp: split_colon_first_def u sc Let_def)
  have "(502 :: int) \<notin> {200, 201, 202, 204, 206, 304}"
    and "(304 :: int) \<in> {200, 201, 202, 204, 206, 304}"
    and "\<bar>1 :: int\<bar> \<le> 2 ^ 53"
    by simp_all
  with p t sc sc3 r r3 f show ?thesis
    by blast
qed

end
